theory Spec2Isabelle
  imports Main "HOL-Library.Char_ord" "HOL-Library.List_Lexorder"
begin

section \<open>Common types\<close>

text \<open>
  A Go \<^verbatim>\<open>[]byte\<close> and a Go \<^verbatim>\<open>string\<close> are both sequences of bytes; both are
  modelled by \<^typ>\<open>string\<close> (a list of 8-bit characters). With \<open>Char_ord\<close> and
  \<open>List_Lexorder\<close> the order \<open>\<le>\<close> on \<^typ>\<open>string\<close> is the bytewise lexicographic
  order, which is the order of Go's \<^verbatim>\<open><\<close> on strings and hence of \<^verbatim>\<open>sort.Strings\<close>.
  A Go \<^verbatim>\<open>error\<close> is modelled by its message; \<^verbatim>\<open>nil\<close> is \<open>None\<close>.
\<close>

type_synonym bytes = string
type_synonym error = string

text \<open>
  A call either returns to its caller, or ends the process: by a \<^verbatim>\<open>panic\<close>, or by
  \<^verbatim>\<open>log.Fatalf\<close> (which prints the message and calls \<^verbatim>\<open>os.Exit(1)\<close>).
\<close>

datatype 'a outcome = Returned 'a | Panicked string | Fatal string

section \<open>The interface of package build used by the driver\<close>

text \<open>
  The driver \<^verbatim>\<open>buildifier/buildifier.go\<close> uses \<^verbatim>\<open>build.Parse\<close>, \<^verbatim>\<open>build.Format\<close>,
  \<^verbatim>\<open>build.Rewrite\<close>, the \<^verbatim>\<open>String\<close> method of \<^verbatim>\<open>build.RewriteInfo\<close>, the field
  \<^verbatim>\<open>Path\<close> of \<^verbatim>\<open>build.File\<close> and the field \<^verbatim>\<open>Log\<close> of \<^verbatim>\<open>build.RewriteInfo\<close>.
  None of them is defined in the source files at hand.
\<close>

text \<open>
  Modelled from the spec: the type \<^verbatim>\<open>File\<close> of package \<^verbatim>\<open>build\<close>, a path (the field
  \<^verbatim>\<open>Path\<close> that the driver assigns) and an ordered sequence of top-level statements.
  The statements are of an arbitrary type \<open>'e\<close>.
\<close>

record 'e File =
  Path :: string
  Stmt :: "'e list"

text \<open>
  Modelled from the spec: the type \<^verbatim>\<open>RewriteInfo\<close> of package \<^verbatim>\<open>build\<close>, an ordered
  sequence of descriptions of changes (the field \<^verbatim>\<open>Log\<close> that the driver reads and
  sorts).
\<close>

record RewriteInfo =
  Log :: "string list"

text \<open>
  The four functions are parameters of the model; the driver is verified for every
  choice of them. \<^verbatim>\<open>Parse\<close> returns an error or a file. \<^verbatim>\<open>Rewrite\<close> reads the
  package variables \<^verbatim>\<open>DisableRewrites\<close> and \<^verbatim>\<open>AllowSort\<close>, which are its first two
  arguments here; it changes the file and the info in place, so the model returns both.
\<close>

record 'e core =
  Parse :: "string \<Rightarrow> bytes \<Rightarrow> error + 'e File"
  Format :: "'e File \<Rightarrow> bytes"
  Rewrite :: "string list \<Rightarrow> string list \<Rightarrow> 'e File \<Rightarrow> RewriteInfo \<Rightarrow> 'e File \<times> RewriteInfo"
  InfoString :: "RewriteInfo \<Rightarrow> string"

section \<open>The driver: buildifier/buildifier.go\<close>

subsection \<open>Flags, the operating system, the state of the process\<close>

record flags =
  showlog :: bool
  vflag :: bool
  dflag :: bool
  mode :: string
  path :: string
  allowsort :: string
  buildifier_disable :: string

text \<open>
  What the operating system answers, where the driver can see a failure:
  reading standard input, writing a named file, creating the \<open>n\<close>-th temporary file
  (its name, or an error) and writing to a temporary file.
\<close>

record os =
  ReadAllStdin :: "error + bytes"
  WriteFileErr :: "string \<Rightarrow> error option"
  TempFile :: "nat \<Rightarrow> error + string"
  TempWriteErr :: "string \<Rightarrow> error option"

datatype core_fn = CParse | CFormat | CRewrite

datatype event =
    Called core_fn
  | Stdout string
  | Stderr string
  | WriteFileCall string bytes
  | DiffShow string string
  | DiffRun
  | Remove string
  | LogPrintln string

text \<open>
  The state: the files on disk, the package variables of \<^verbatim>\<open>build\<close> set by \<^verbatim>\<open>main\<close>,
  the driver's variables \<^verbatim>\<open>exitCode\<close> and \<^verbatim>\<open>toRemove\<close>, the number of temporary
  files created so far, and the trace of what the process did, oldest event first.
\<close>

record world =
  files :: "string \<rightharpoonup> bytes"
  DisableRewrites :: "string list"
  AllowSort :: "string list"
  exitCode :: int
  toRemove :: "string list"
  ntemp :: nat
  trace :: "event list"

definition emit :: "event \<Rightarrow> world \<Rightarrow> world" where
  "emit e w = w\<lparr>trace := trace w @ [e]\<rparr>"

definition ReadFile :: "world \<Rightarrow> string \<Rightarrow> error + bytes" where
  "ReadFile w name =
     (case files w name of
        None \<Rightarrow> Inl (''open '' @ name @ '': no such file or directory'')
      | Some data \<Rightarrow> Inr data)"

definition WriteFile :: "os \<Rightarrow> string \<Rightarrow> bytes \<Rightarrow> world \<Rightarrow> world \<times> error option" where
  "WriteFile os name data w =
     (let w1 = emit (WriteFileCall name data) w
      in case WriteFileErr os name of
           Some err \<Rightarrow> (w1, Some err)
         | None \<Rightarrow> (w1\<lparr>files := (files w1)(name \<mapsto> data)\<rparr>, None))"

subsection \<open>Library functions\<close>

text \<open>\<^verbatim>\<open>strings.Join\<close> and \<^verbatim>\<open>strings.Split\<close> with a one-byte separator.\<close>

fun Join :: "string list \<Rightarrow> string \<Rightarrow> string" where
  "Join [] sep = []"
| "Join [a] sep = a"
| "Join (a # b # r) sep = a @ sep @ Join (b # r) sep"

fun Split :: "string \<Rightarrow> char \<Rightarrow> string list" where
  "Split [] sep = [[]]"
| "Split (c # cs) sep =
     (if c = sep then [] # Split cs sep
      else (case Split cs sep of [] \<Rightarrow> [[c]] | p # ps \<Rightarrow> (c # p) # ps))"

subsection \<open>writeTemp\<close>

text \<open>
  \<^verbatim>\<open>writeTemp\<close> creates a temporary file, appends its name to \<^verbatim>\<open>toRemove\<close> and
  then writes the data; the name stays in \<^verbatim>\<open>toRemove\<close> when the write fails.
\<close>

definition writeTemp :: "os \<Rightarrow> bytes \<Rightarrow> world \<Rightarrow> world \<times> (error + string)" where
  "writeTemp os data w =
     (case TempFile os (ntemp w) of
        Inl err \<Rightarrow> (w, Inl (''creating temporary file: '' @ err))
      | Inr name \<Rightarrow>
          (let w1 = w\<lparr>ntemp := Suc (ntemp w), files := (files w)(name \<mapsto> []),
                       toRemove := toRemove w @ [name]\<rparr>
           in case TempWriteErr os name of
                Some err \<Rightarrow> (w1, Inl (''writing temporary file: '' @ err))
              | None \<Rightarrow> (w1\<lparr>files := (files w1)(name \<mapsto> data)\<rparr>, Inr name)))"

subsection \<open>processFile\<close>

text \<open>
  The loop of lines 249 to 254: \<^verbatim>\<open>last\<close> starts as the empty string, and an entry is
  appended to \<^verbatim>\<open>uniq\<close> when it differs from \<^verbatim>\<open>last\<close>.
\<close>

fun uniqLoop :: "string \<Rightarrow> string list \<Rightarrow> string list \<Rightarrow> string list" where
  "uniqLoop last' uniq [] = uniq"
| "uniqLoop last' uniq (s # ss) =
     (if s \<noteq> last' then uniqLoop s (uniq @ [s]) ss else uniqLoop last' uniq ss)"

text \<open>
  The entries that check mode prints after the summary (lines 246 to 254):
  the log is sorted in place, then filtered by the loop.
\<close>

definition printedLog :: "string list \<Rightarrow> string list" where
  "printedLog l = uniqLoop [] [] (sort l)"

text \<open>
  Lines 243 to 256: the text \<^verbatim>\<open>log\<close>, and the info whose \<^verbatim>\<open>Log\<close> has been sorted
  in place by \<^verbatim>\<open>sort.Strings\<close> when the branch is taken.
\<close>

definition checkLog :: "bool \<Rightarrow> RewriteInfo \<Rightarrow> RewriteInfo \<times> string" where
  "checkLog showlog_flag info =
     (if length (Log info) > 0 \<and> showlog_flag
      then (info\<lparr>Log := sort (Log info)\<rparr>, '' '' @ Join (printedLog (Log info)) '' '')
      else (info, []))"

definition checkLine ::
  "'e core \<Rightarrow> flags \<Rightarrow> string \<Rightarrow> bytes \<Rightarrow> bytes \<Rightarrow> RewriteInfo \<Rightarrow> string" where
  "checkLine c fl filename data beforeRewrite info =
     (let reformat = (if data \<noteq> beforeRewrite then '' reformat'' else []);
          (info1, log) = checkLog (showlog fl) info
      in filename @ '' #'' @ reformat @ '' '' @ InfoString c info1 @ log @ [CHR 0x0A])"

definition diffMode :: "os \<Rightarrow> string \<Rightarrow> bytes \<Rightarrow> bytes \<Rightarrow> world \<Rightarrow> world \<times> error option outcome" where
  "diffMode os filename data ndata w =
     (if data = ndata then (w, Returned None)
      else case writeTemp os ndata w of
        (w1, Inl err) \<Rightarrow> (w1, Returned (Some err))
      | (w1, Inr outfile) \<Rightarrow>
          (if filename = []
           then (case writeTemp os data w1 of
                   (w2, Inl err) \<Rightarrow> (w2, Returned (Some err))
                 | (w2, Inr infile) \<Rightarrow> (emit (DiffShow infile outfile) w2, Returned None))
           else (emit (DiffShow filename outfile) w1, Returned None)))"

definition fixMode :: "os \<Rightarrow> flags \<Rightarrow> string \<Rightarrow> bytes \<Rightarrow> bytes \<Rightarrow> world \<Rightarrow> world \<times> error option outcome" where
  "fixMode os fl filename data ndata w =
     (if data = ndata then (w, Returned None)
      else case WriteFile os filename ndata w of
        (w1, Some err) \<Rightarrow> (w1, Returned (Some err))
      | (w1, None) \<Rightarrow>
          ((if vflag fl then emit (Stderr (''fixed '' @ filename @ [CHR 0x0A])) w1 else w1),
           Returned None))"

definition processFile ::
  "'e core \<Rightarrow> os \<Rightarrow> flags \<Rightarrow> string \<Rightarrow> world \<Rightarrow> world \<times> error option outcome" where
  "processFile c os fl filename w =
     (case (if filename = ''stdin'' then ReadAllStdin os else ReadFile w filename) of
        Inl err \<Rightarrow> (w, Returned (Some err))
      | Inr data \<Rightarrow>
         (case Parse c filename data of
            Inl err \<Rightarrow> (emit (Called CParse) w, Returned None)
          | Inr f0 \<Rightarrow>
             (let w1 = emit (Called CParse) w;
                  f = (if path fl \<noteq> [] then f0\<lparr>Path := path fl\<rparr> else f0);
                  beforeRewrite = Format c f;
                  w2 = emit (Called CFormat) w1;
                  (f1, info) = Rewrite c (DisableRewrites w2) (AllowSort w2) f \<lparr>Log = []\<rparr>;
                  w3 = emit (Called CRewrite) w2;
                  ndata = Format c f1;
                  w4 = emit (Called CFormat) w3
              in if mode fl = ''check'' then
                   ((if data \<noteq> ndata
                     then emit (Stdout (checkLine c fl filename data beforeRewrite info)) w4
                     else w4), Returned None)
                 else if mode fl = ''diff'' then diffMode os filename data ndata w4
                 else if mode fl = ''pipe'' then (emit (Stdout ndata) w4, Returned None)
                 else if mode fl = ''fix'' then fixMode os fl filename data ndata w4
                 else (w4, Panicked (''mode not supported: '' @ mode fl)))))"

subsection \<open>processFiles\<close>

text \<open>
  \<^verbatim>\<open>processFiles\<close> hands the file names to one worker per processor; each worker
  calls \<^verbatim>\<open>processFile\<close> and sends a result on the channel when the error is not
  \<^verbatim>\<open>nil\<close>. After all workers are done the errors are printed. The model runs the
  files one after the other, in the order of the argument list. A panic in a worker
  ends the process.
\<close>

fun runFiles ::
  "'e core \<Rightarrow> os \<Rightarrow> flags \<Rightarrow> string list \<Rightarrow> error list \<Rightarrow> world \<Rightarrow> world \<times> error list outcome" where
  "runFiles c os fl [] ch w = (w, Returned ch)"
| "runFiles c os fl (filename # rest) ch w =
     (case processFile c os fl filename w of
        (w1, Returned None) \<Rightarrow> runFiles c os fl rest ch w1
      | (w1, Returned (Some err)) \<Rightarrow> runFiles c os fl rest (ch @ [err]) w1
      | (w1, Panicked m) \<Rightarrow> (w1, Panicked m)
      | (w1, Fatal m) \<Rightarrow> (w1, Fatal m))"

definition printErr :: "error \<Rightarrow> world \<Rightarrow> world" where
  "printErr err w = emit (Stderr (''buildifier: '' @ err @ [CHR 0x0A])) w"

definition processFiles ::
  "'e core \<Rightarrow> os \<Rightarrow> flags \<Rightarrow> string list \<Rightarrow> world \<Rightarrow> world \<times> unit outcome" where
  "processFiles c os fl fs w =
     (if length fs = 0 then (w, Returned ())
      else case runFiles c os fl fs [] w of
        (w1, Returned ch) \<Rightarrow> (fold printErr ch w1, Returned ())
      | (w1, Panicked m) \<Rightarrow> (w1, Panicked m)
      | (w1, Fatal m) \<Rightarrow> (w1, Fatal m))"

subsection \<open>main\<close>

text \<open>
  The process starts with \<^verbatim>\<open>exitCode = 0\<close>, an empty \<^verbatim>\<open>toRemove\<close> and the files
  \<open>fs\<close> on disk.
\<close>

definition initWorld :: "(string \<rightharpoonup> bytes) \<Rightarrow> world" where
  "initWorld fs = \<lparr>files = fs, DisableRewrites = [], AllowSort = [], exitCode = 0,
                   toRemove = [], ntemp = 0, trace = []\<rparr>"

text \<open>
  \<^verbatim>\<open>main\<close> first passes the two debug flags down into package \<^verbatim>\<open>build\<close>.
\<close>

definition startWorld :: "flags \<Rightarrow> (string \<rightharpoonup> bytes) \<Rightarrow> world" where
  "startWorld fl fs =
     (initWorld fs)\<lparr>DisableRewrites := Split (buildifier_disable fl) (CHR '',''),
                     AllowSort := Split (allowsort fl) (CHR '','')\<rparr>"

definition osRemove :: "string \<Rightarrow> world \<Rightarrow> world" where
  "osRemove name w = emit (Remove name) (w\<lparr>files := (files w)(name := None)\<rparr>)"

text \<open>
  The end of \<^verbatim>\<open>main\<close>, after \<^verbatim>\<open>processFiles\<close>: \<^verbatim>\<open>diff.Run()\<close>, the removal of the
  temporary files and \<^verbatim>\<open>os.Exit(exitCode)\<close>. A Go process that ends by a panic has exit
  status 2, one that ends in \<^verbatim>\<open>log.Fatalf\<close> has exit status 1.
\<close>

definition finish :: "world \<times> unit outcome \<Rightarrow> world \<times> int" where
  "finish r =
     (case r of
        (w1, Returned u) \<Rightarrow>
          (let w2 = emit DiffRun w1;
               w3 = fold osRemove (toRemove w2) w2
           in (w3, exitCode w3))
      | (w1, Panicked m) \<Rightarrow> (emit (Stderr (''panic: '' @ m)) w1, 2)
      | (w1, Fatal m) \<Rightarrow> (emit (Stderr m) w1, 1))"

text \<open>
  \<^verbatim>\<open>main\<close> after \<^verbatim>\<open>flag.Parse()\<close>: \<open>fl0\<close> holds the values of the flags and \<open>args\<close>
  the remaining arguments. The result is the final state and the exit status of the
  process.
\<close>

definition main ::
  "'e core \<Rightarrow> os \<Rightarrow> flags \<Rightarrow> string list \<Rightarrow> (string \<rightharpoonup> bytes) \<Rightarrow> world \<times> int" where
  "main c os fl0 args fs =
     (let w = startWorld fl0 fs
      in if dflag fl0 \<and> mode fl0 \<noteq> [] then
           (emit (Stderr (''buildifier: cannot specify both -d and -mode flags'' @ [CHR 0x0A])) w, 2)
         else
           let fl1 = (if dflag fl0 then fl0\<lparr>mode := ''diff''\<rparr> else fl0)
           in if mode fl1 \<noteq> [] \<and> mode fl1 \<noteq> ''check'' \<and> mode fl1 \<noteq> ''diff''
                 \<and> mode fl1 \<noteq> ''fix'' then
                (emit (Stderr (''buildifier: unrecognized mode '' @ mode fl1 @
                               ''; valid modes are check, diff, fix'' @ [CHR 0x0A])) w, 2)
              else
                let fl2 = (if mode fl1 = [] then fl1\<lparr>mode := ''fix''\<rparr> else fl1)
                in if path fl2 \<noteq> [] \<and> length args > 1 then
                     (emit (Stderr (''buildifier: can only format one file when using -path flag''
                                    @ [CHR 0x0A])) w, 2)
                   else
                     let (fl3, names) =
                           (if length args = 0
                            then ((if mode fl2 = ''fix'' then fl2\<lparr>mode := ''pipe''\<rparr> else fl2),
                                  [''stdin''])
                            else (fl2, args))
                     in finish (processFiles c os fl3 names w))"

section \<open>Go templates, as far as NewBuildFile uses them\<close>

text \<open>
  \<^verbatim>\<open>NewBuildFile\<close> parses a template and executes it with package \<^verbatim>\<open>html/template\<close>.
  This section is an interpreter for the part of the template language that the
  template of \<^verbatim>\<open>NewBuildFile\<close> is written in: text, the actions \<^verbatim>\<open>{{.Field}}\<close> and
  \<^verbatim>\<open>{{$var}}\<close>, and \<^verbatim>\<open>{{range $x := pipeline}}\<close>, \<^verbatim>\<open>{{range $i, $x := pipeline}}\<close>
  closed by \<^verbatim>\<open>{{end}}\<close>, over data made of strings, slices and maps with string keys.
  Whatever is outside that part is answered by an error, so that a template or a datum
  that this interpreter does not cover can never count as a success.
\<close>

datatype gvalue = VString string | VInt int | VSlice "gvalue list" | VMap "(string \<times> gvalue) list"

datatype pipe = PField string | PVar string

datatype node = NText string | NAction pipe | NRange "string list" pipe "node list"

subsection \<open>Parsing a template\<close>

datatype item = IText string | IAction string

definition textItem :: "string \<Rightarrow> item list" where
  "textItem acc = (if acc = [] then [] else [IText acc])"

text \<open>
  The text is cut at the delimiters: outside an action up to the next \<^verbatim>\<open>{{\<close>, inside
  an action up to the next \<^verbatim>\<open>}}\<close>. An action that is not closed is an error.
\<close>

fun lex :: "bool \<Rightarrow> string \<Rightarrow> string \<Rightarrow> error + item list" where
  "lex inAction acc [] = (if inAction then Inl ''unclosed action'' else Inr (textItem acc))"
| "lex inAction acc [c] = lex inAction (acc @ [c]) []"
| "lex False acc (c # d # cs) =
     (if c = CHR ''{'' \<and> d = CHR ''{''
      then (case lex True [] cs of Inl e \<Rightarrow> Inl e | Inr its \<Rightarrow> Inr (textItem acc @ its))
      else lex False (acc @ [c]) (d # cs))"
| "lex True acc (c # d # cs) =
     (if c = CHR ''}'' \<and> d = CHR ''}''
      then (case lex False [] cs of Inl e \<Rightarrow> Inl e | Inr its \<Rightarrow> Inr (IAction acc # its))
      else lex True (acc @ [c]) (d # cs))"

definition isSpace :: "char \<Rightarrow> bool" where
  "isSpace c = (c = CHR '' '' \<or> c = CHR 0x09 \<or> c = CHR 0x0D \<or> c = CHR 0x0A)"

definition flush :: "string \<Rightarrow> string list" where
  "flush acc = (if acc = [] then [] else [acc])"

text \<open>The words of an action: separated by white space, a comma being a word.\<close>

fun words :: "string \<Rightarrow> string \<Rightarrow> string list" where
  "words acc [] = flush acc"
| "words acc (c # cs) =
     (if isSpace c then flush acc @ words [] cs
      else if c = CHR '','' then flush acc @ [[c]] @ words [] cs
      else words (acc @ [c]) cs)"

definition isAlnum :: "char \<Rightarrow> bool" where
  "isAlnum c = (c = CHR ''_'' \<or> (CHR ''a'' \<le> c \<and> c \<le> CHR ''z'')
                \<or> (CHR ''A'' \<le> c \<and> c \<le> CHR ''Z'') \<or> (CHR ''0'' \<le> c \<and> c \<le> CHR ''9''))"

definition isVariable :: "string \<Rightarrow> bool" where
  "isVariable w = (case w of [] \<Rightarrow> False | c # name \<Rightarrow> c = CHR ''$'' \<and> list_all isAlnum name)"

definition isField :: "string \<Rightarrow> bool" where
  "isField w =
     (case w of [] \<Rightarrow> False | c # name \<Rightarrow> c = CHR ''.'' \<and> name \<noteq> [] \<and> list_all isAlnum name)"

definition parsePipe :: "string list \<Rightarrow> error + pipe" where
  "parsePipe ws =
     (case ws of
        [w] \<Rightarrow> (if isField w then Inr (PField (tl w))
                else if isVariable w then Inr (PVar w)
                else Inl (''unsupported operand '' @ w))
      | _ \<Rightarrow> Inl ''unsupported pipeline'')"

datatype action = APrint pipe | ARange "string list" pipe | AEnd

definition parseAction :: "string list \<Rightarrow> error + action" where
  "parseAction ws =
     (if ws = [''end''] then Inr AEnd
      else if 5 \<le> length ws \<and> ws ! 0 = ''range'' \<and> isVariable (ws ! 1) \<and> ws ! 2 = '',''
              \<and> isVariable (ws ! 3) \<and> ws ! 4 = '':='' then
        (case parsePipe (drop 5 ws) of
           Inl e \<Rightarrow> Inl e | Inr p \<Rightarrow> Inr (ARange [ws ! 1, ws ! 3] p))
      else if 3 \<le> length ws \<and> ws ! 0 = ''range'' \<and> isVariable (ws ! 1) \<and> ws ! 2 = '':='' then
        (case parsePipe (drop 3 ws) of
           Inl e \<Rightarrow> Inl e | Inr p \<Rightarrow> Inr (ARange [ws ! 1] p))
      else (case parsePipe ws of Inl e \<Rightarrow> Inl e | Inr p \<Rightarrow> Inr (APrint p)))"

text \<open>
  The tree is built with a stack of the \<^verbatim>\<open>range\<close> actions that are still open, each
  with the nodes that came before it; \<^verbatim>\<open>{{end}}\<close> closes the innermost one.
\<close>

fun build ::
  "(string list \<times> pipe \<times> node list) list \<Rightarrow> node list \<Rightarrow> item list \<Rightarrow> error + node list" where
  "build stk acc [] = (if stk = [] then Inr acc else Inl ''unexpected EOF'')"
| "build stk acc (IText s # its) = build stk (acc @ [NText s]) its"
| "build stk acc (IAction a # its) =
     (case parseAction (words [] a) of
        Inl e \<Rightarrow> Inl e
      | Inr (APrint p) \<Rightarrow> build stk (acc @ [NAction p]) its
      | Inr (ARange vars p) \<Rightarrow> build ((vars, p, acc) # stk) [] its
      | Inr AEnd \<Rightarrow>
          (case stk of
             [] \<Rightarrow> Inl ''unexpected {{end}}''
           | (vars, p, outer) # stk' \<Rightarrow> build stk' (outer @ [NRange vars p acc]) its))"

text \<open>
  A variable must be declared where it is used: by an enclosing \<^verbatim>\<open>range\<close>, or it is
  \<^verbatim>\<open>$\<close>, the datum the template is executed with.
\<close>

fun varsDefined :: "string list \<Rightarrow> node \<Rightarrow> bool" where
  "varsDefined vs (NText s) = True"
| "varsDefined vs (NAction (PField f)) = True"
| "varsDefined vs (NAction (PVar v)) = (v \<in> set vs)"
| "varsDefined vs (NRange vars p body) =
     ((case p of PField f \<Rightarrow> True | PVar v \<Rightarrow> v \<in> set vs)
      \<and> list_all (varsDefined (vars @ vs)) body)"

definition tmplParse :: "string \<Rightarrow> error + node list" where
  "tmplParse text =
     (case lex False [] text of
        Inl e \<Rightarrow> Inl e
      | Inr its \<Rightarrow>
         (case build [] [] its of
            Inl e \<Rightarrow> Inl e
          | Inr ns \<Rightarrow> if list_all (varsDefined [''$'']) ns then Inr ns
                      else Inl ''undefined variable''))"

subsection \<open>Executing a template\<close>

text \<open>
  Package \<^verbatim>\<open>html/template\<close> escapes what an action prints. In running text the
  escaping replaces the following bytes; the zero byte becomes the three bytes of U+FFFD.
\<close>

definition escChar :: "char \<Rightarrow> string" where
  "escChar c =
     (if c = CHR 0x00 then [CHR 0xEF, CHR 0xBF, CHR 0xBD]
      else if c = CHR 0x22 then ''&#34;''
      else if c = CHR ''&'' then ''&amp;''
      else if c = CHR 0x27 then ''&#39;''
      else if c = CHR ''+'' then ''&#43;''
      else if c = CHR ''<'' then ''&lt;''
      else if c = CHR ''>'' then ''&gt;''
      else [c])"

definition htmlEscape :: "string \<Rightarrow> string" where
  "htmlEscape s = concat (map escChar s)"

fun concatE :: "(error + string) list \<Rightarrow> error + string" where
  "concatE [] = Inr []"
| "concatE (Inl e # rs) = Inl e"
| "concatE (Inr s # rs) = (case concatE rs of Inl e \<Rightarrow> Inl e | Inr t \<Rightarrow> Inr (s @ t))"

definition evalPipe :: "(string \<times> gvalue) list \<Rightarrow> gvalue \<Rightarrow> pipe \<Rightarrow> error + gvalue" where
  "evalPipe env dot p =
     (case p of
        PField f \<Rightarrow>
          (case dot of
             VMap m \<Rightarrow>
               (case map_of m f of Some v \<Rightarrow> Inr v | None \<Rightarrow> Inl (''no entry for key '' @ f))
           | _ \<Rightarrow> Inl (''cannot evaluate field '' @ f))
      | PVar v \<Rightarrow>
          (case map_of env v of Some x \<Rightarrow> Inr x | None \<Rightarrow> Inl (''undefined variable '' @ v)))"

definition printValue :: "gvalue \<Rightarrow> error + string" where
  "printValue v = (case v of VString s \<Rightarrow> Inr (htmlEscape s) | _ \<Rightarrow> Inl ''unsupported value'')"

text \<open>
  \<^verbatim>\<open>range\<close> visits a slice in the order of its indices, and a map in the order of its
  sorted keys.
\<close>

definition rangeItems :: "gvalue \<Rightarrow> error + (gvalue \<times> gvalue) list" where
  "rangeItems v =
     (case v of
        VSlice xs \<Rightarrow> Inr (zip (map (\<lambda>i. VInt (int i)) [0..<length xs]) xs)
      | VMap m \<Rightarrow> Inr (map (\<lambda>(k, x). (VString k, x)) (sort_key fst m))
      | _ \<Rightarrow> Inl ''range cannot iterate'')"

text \<open>
  With one variable, \<^verbatim>\<open>range\<close> assigns the element to it; with two, the index or key
  to the first and the element to the second.
\<close>

definition bind ::
  "string list \<Rightarrow> gvalue \<Rightarrow> gvalue \<Rightarrow> (string \<times> gvalue) list \<Rightarrow> (string \<times> gvalue) list" where
  "bind vars k x env =
     (case vars of
        [a] \<Rightarrow> (a, x) # env
      | [a, b] \<Rightarrow> (b, x) # (a, k) # env
      | _ \<Rightarrow> env)"

fun exec :: "(string \<times> gvalue) list \<Rightarrow> gvalue \<Rightarrow> node \<Rightarrow> error + string" where
  "exec env dot (NText s) = Inr s"
| "exec env dot (NAction p) =
     (case evalPipe env dot p of Inl e \<Rightarrow> Inl e | Inr v \<Rightarrow> printValue v)"
| "exec env dot (NRange vars p body) =
     (case evalPipe env dot p of
        Inl e \<Rightarrow> Inl e
      | Inr v \<Rightarrow>
         (case rangeItems v of
            Inl e \<Rightarrow> Inl e
          | Inr kxs \<Rightarrow>
              concatE (map (\<lambda>(k, x). concatE (map (exec (bind vars k x env) x) body)) kxs)))"

text \<open>
  The escaping of \<^verbatim>\<open>html/template\<close> depends on the HTML context of each action. A
  template whose text has no \<^verbatim>\<open><\<close> stays in running text; any other template is
  outside the part modelled here.
\<close>

fun plainText :: "node \<Rightarrow> bool" where
  "plainText (NText s) = (CHR ''<'' \<notin> set s)"
| "plainText (NAction p) = True"
| "plainText (NRange vars p body) = list_all plainText body"

definition tmplExecute :: "node list \<Rightarrow> gvalue \<Rightarrow> error + bytes" where
  "tmplExecute tmpl data =
     (if list_all plainText tmpl then concatE (map (exec [(''$'', data)] data) tmpl)
      else Inl ''markup in template text'')"

section \<open>core/builder.go\<close>

definition templateText :: string where
  \<open>templateText = ''\<newline>{{.RuleName}}(\<newline>    {{range $index, $element := .Attrs}}\<newline>        "{{ $index }}" : [\<newline>           {{ range $name := $element }}\<newline>                "{{$name}}",\<newline>           {{end}}\<newline>        ],\<newline>    {{end}}\<newline>)\<newline>''\<close>

definition doc :: gvalue where
  "doc = VMap [(''RuleName'', VString ''go_library''),
               (''Attrs'', VMap [(''srcs'', VSlice [VString ''src.go''])])]"

text \<open>
  \<^verbatim>\<open>NewBuildFile\<close>: the result is what \<^verbatim>\<open>Parse\<close> returns, together with what was
  logged on the way, unless \<^verbatim>\<open>log.Fatalf\<close> ends the process.
\<close>

definition NewBuildFile :: "'e core \<Rightarrow> (event list \<times> (error + 'e File)) outcome" where
  "NewBuildFile c =
     (case tmplParse templateText of
        Inl err \<Rightarrow> Fatal (''parsing: '' @ err)
      | Inr tmpl \<Rightarrow>
         (case tmplExecute tmpl doc of
            Inl err \<Rightarrow> Fatal (''execution: '' @ err)
          | Inr b \<Rightarrow> Returned ([LogPrintln b], Parse c ''generated'' b)))"

text \<open>The tree of the template and the text it generates, written out.\<close>

definition genrule :: "node list" where
  \<open>genrule =
     [NText ''\<newline>'', NAction (PField ''RuleName''), NText ''(\<newline>    '',
      NRange [''$index'', ''$element''] (PField ''Attrs'')
       [NText ''\<newline>        "'', NAction (PVar ''$index''),
        NText ''" : [\<newline>           '',
        NRange [''$name''] (PVar ''$element'')
         [NText ''\<newline>                "'', NAction (PVar ''$name''),
          NText ''",\<newline>           ''],
        NText ''\<newline>        ],\<newline>    ''],
      NText ''\<newline>)\<newline>'']\<close>

definition generatedBytes :: bytes where
  \<open>generatedBytes = ''\<newline>go_library(\<newline>    \<newline>        "srcs" : [\<newline>           \<newline>                "src.go",\<newline>           \<newline>        ],\<newline>    \<newline>)\<newline>''\<close>

section \<open>Observations on a run of the driver\<close>

text \<open>The events that a step added to the trace.\<close>

definition newEvents :: "world \<Rightarrow> world \<Rightarrow> event list" where
  "newEvents w w' = drop (length (trace w)) (trace w')"

text \<open>The calls into package \<^verbatim>\<open>build\<close> among some events, in their order.\<close>

fun callsOf :: "event list \<Rightarrow> core_fn list" where
  "callsOf [] = []"
| "callsOf (Called f # es) = f # callsOf es"
| "callsOf (e # es) = callsOf es"

text \<open>
  The output actions: a write to standard output (the report line of check mode, the
  formatted file in pipe mode), a call of \<^verbatim>\<open>ioutil.WriteFile\<close> on the named file, and
  a call of \<^verbatim>\<open>diff.Show\<close>.
\<close>

fun isOutputAction :: "event \<Rightarrow> bool" where
  "isOutputAction (Stdout s) = True"
| "isOutputAction (WriteFileCall name data) = True"
| "isOutputAction (DiffShow a b) = True"
| "isOutputAction e = False"

definition outputActions :: "event list \<Rightarrow> event list" where
  "outputActions es = filter isOutputAction es"

text \<open>
  The file that \<^verbatim>\<open>processFile\<close> formats first (the parsed file, with the path of the
  \<^verbatim>\<open>-path\<close> flag when that is given), what \<^verbatim>\<open>Rewrite\<close> returns for it, and the
  final bytes \<^verbatim>\<open>ndata\<close>.
\<close>

definition withPath :: "flags \<Rightarrow> 'e File \<Rightarrow> 'e File" where
  "withPath fl f0 = (if path fl \<noteq> [] then f0\<lparr>Path := path fl\<rparr> else f0)"

definition rewritten :: "'e core \<Rightarrow> flags \<Rightarrow> world \<Rightarrow> 'e File \<Rightarrow> 'e File \<times> RewriteInfo" where
  "rewritten c fl w f0 = Rewrite c (DisableRewrites w) (AllowSort w) (withPath fl f0) \<lparr>Log = []\<rparr>"

definition ndataOf :: "'e core \<Rightarrow> flags \<Rightarrow> world \<Rightarrow> 'e File \<Rightarrow> bytes" where
  "ndataOf c fl w f0 = Format c (fst (rewritten c fl w f0))"

text \<open>A call that returns to its caller.\<close>

definition returns :: "'a outcome \<Rightarrow> bool" where
  "returns r = (case r of Returned x \<Rightarrow> True | _ \<Rightarrow> False)"

text \<open>
  The flags and arguments for which \<^verbatim>\<open>main\<close> prints a message and exits with status 2
  before it processes any file.
\<close>

definition usageError :: "flags \<Rightarrow> string list \<Rightarrow> bool" where
  "usageError fl args =
     ((dflag fl \<and> mode fl \<noteq> [])
      \<or> (\<not> dflag fl \<and> mode fl \<noteq> [] \<and> mode fl \<noteq> ''check'' \<and> mode fl \<noteq> ''diff''
          \<and> mode fl \<noteq> ''fix'')
      \<or> (path fl \<noteq> [] \<and> length args > 1))"

text \<open>The state after the four calls into package \<^verbatim>\<open>build\<close> of \<^verbatim>\<open>processFile\<close>.\<close>

definition afterCalls :: "world \<Rightarrow> world" where
  "afterCalls w =
     emit (Called CFormat) (emit (Called CRewrite) (emit (Called CFormat) (emit (Called CParse) w)))"

subsection \<open>An instance of the interface, for the examples\<close>

text \<open>
  A file is one statement, its bytes without the blanks; a \<^verbatim>\<open>!\<close> is a syntax error;
  rewriting changes nothing.
\<close>

definition exampleCore :: "string core" where
  "exampleCore =
     \<lparr>Parse = (\<lambda>p b. if CHR ''!'' \<in> set b then Inl (p @ '': syntax error'')
                      else Inr \<lparr>Path = p, Stmt = [filter (\<lambda>ch. ch \<noteq> CHR '' '') b]\<rparr>),
      Format = (\<lambda>f. concat (Stmt f)),
      Rewrite = (\<lambda>disabled allowed f info. (f, info)),
      InfoString = (\<lambda>info. ''info'')\<rparr>"

definition exampleOS :: os where
  "exampleOS =
     \<lparr>ReadAllStdin = Inr ''ab'',
      WriteFileErr = (\<lambda>name. None),
      TempFile = (\<lambda>n. Inl ''no space left on device''),
      TempWriteErr = (\<lambda>name. None)\<rparr>"

definition exampleFlags :: flags where
  "exampleFlags =
     \<lparr>showlog = False, vflag = False, dflag = False, mode = ''check'', path = [],
      allowsort = [], buildifier_disable = []\<rparr>"

definition exampleFiles :: "string \<rightharpoonup> bytes" where
  "exampleFiles = [''BUILD'' \<mapsto> ''a b'', ''bad/BUILD'' \<mapsto> ''a(!'']"

section \<open>Rules and their names\<close>

text \<open>
  Modelled from the spec: the expressions of a BUILD file. The type \<^verbatim>\<open>Expr\<close> of package
  \<^verbatim>\<open>build\<close> is not among the source files at hand. The variants are those the data model
  lists; an argument of a call is positional or a keyword with its value. Positions and
  comments are left out: no accessor below reads them.
\<close>

datatype literal = StringLit string | NumberLit string | BoolLit bool

datatype Expr =
    Identifier string
  | Literal literal
  | ListLiteral "Expr list"
  | DictLiteral "(Expr \<times> Expr) list"
  | TupleLiteral "Expr list"
  | BinaryOp string Expr Expr
  | UnaryOp string Expr
  | CallExpr Expr "Arg list"
  | Assignment Expr Expr
  | Comprehension Expr "Expr list"
and Arg = Positional Expr | Keyword string Expr

text \<open>
  Modelled from the spec: a rule, which is a call at top level whose callee is an
  identifier, the kind of the rule. Its arguments are the positional arguments in the
  order of the source, and the keyword attributes, an ordered mapping with unique keys.
  The type \<^verbatim>\<open>Rule\<close> of package \<^verbatim>\<open>build\<close> is not among the source files at hand.
\<close>

record Rule =
  Kind :: string
  Positionals :: "Expr list"
  Attrs :: "(string \<times> Expr) list"

text \<open>
  Modelled from the spec: how parsing collects the arguments of a rule. The arguments
  are taken from left to right; a positional argument is appended, and a keyword argument
  replaces an earlier attribute with the same key (the last occurrence wins).
\<close>

fun addArg :: "Rule \<Rightarrow> Arg \<Rightarrow> Rule" where
  "addArg r (Positional e) = r\<lparr>Positionals := Positionals r @ [e]\<rparr>"
| "addArg r (Keyword k v) = r\<lparr>Attrs := filter (\<lambda>kv. fst kv \<noteq> k) (Attrs r) @ [(k, v)]\<rparr>"

definition parsedRule :: "string \<Rightarrow> Arg list \<Rightarrow> Rule" where
  "parsedRule kind args = foldl addArg \<lparr>Kind = kind, Positionals = [], Attrs = []\<rparr> args"

text \<open>
  Modelled from the spec: \<^verbatim>\<open>Rule.Attr\<close>, which returns the value of the attribute and
  whether it is present. The method is not among the source files at hand.
\<close>

definition Attr :: "Rule \<Rightarrow> string \<Rightarrow> Expr option" where
  "Attr r key = map_of (Attrs r) key"

text \<open>
  Modelled from the spec: \<^verbatim>\<open>Rule.Name\<close>, of which only the call in
  \<^verbatim>\<open>core/builder_test.go\<close> is among the source files at hand. The name is the value
  of the attribute \<^verbatim>\<open>name\<close> if that is present, otherwise the first positional argument
  if there is one and it is a string literal, otherwise the empty string. The result is
  an expression, as for \<^verbatim>\<open>Rule.Attr\<close>; the empty string is the string literal without
  content.
\<close>

definition Name :: "Rule \<Rightarrow> Expr" where
  "Name r =
     (case Attr r ''name'' of
        Some v \<Rightarrow> v
      | None \<Rightarrow>
         (case Positionals r of
            Literal (StringLit s) # rest \<Rightarrow> Literal (StringLit s)
          | _ \<Rightarrow> Literal (StringLit [])))"

text \<open>
  The values of the keyword arguments with a given key, and the positional arguments,
  of an argument list as it stands in the source.
\<close>

fun keywordValues :: "string \<Rightarrow> Arg list \<Rightarrow> Expr list" where
  "keywordValues key [] = []"
| "keywordValues key (Keyword k v # args) =
     (if k = key then v # keywordValues key args else keywordValues key args)"
| "keywordValues key (Positional e # args) = keywordValues key args"

fun positionalArgs :: "Arg list \<Rightarrow> Expr list" where
  "positionalArgs [] = []"
| "positionalArgs (Positional e # args) = e # positionalArgs args"
| "positionalArgs (Keyword k v # args) = positionalArgs args"

section \<open>The generated BUILD file\<close>

text \<open>
  The template of \<^verbatim>\<open>NewBuildFile\<close> parses to the tree \<open>genrule\<close>, and executing
  that tree with \<open>doc\<close> gives \<open>generatedBytes\<close>.
\<close>

lemma tmplParse_templateText: "tmplParse templateText = Inr genrule"
  by code_simp

lemma tmplExecute_genrule: "tmplExecute genrule doc = Inr generatedBytes"
  by code_simp

text \<open>
  Claim C8. The two \<^verbatim>\<open>log.Fatalf\<close> calls of \<^verbatim>\<open>NewBuildFile\<close> are never reached:
  parsing the template succeeds, executing it succeeds, and \<^verbatim>\<open>NewBuildFile\<close> returns
  to its caller, whatever \<^verbatim>\<open>Parse\<close> answers.
\<close>

theorem NewBuildFile_never_fatal:
  "(\<exists>tmpl. tmplParse templateText = Inr tmpl \<and> (\<exists>b. tmplExecute tmpl doc = Inr b))
   \<and> (\<exists>r. NewBuildFile c = Returned r)
   \<and> NewBuildFile c \<noteq> Fatal m \<and> NewBuildFile c \<noteq> Panicked m"
  by (simp add: NewBuildFile_def tmplParse_templateText tmplExecute_genrule)

text \<open>
  Claim C10. \<^verbatim>\<open>NewBuildFile\<close> generates one fixed document and returns what
  \<^verbatim>\<open>Parse\<close> returns for the name \<^verbatim>\<open>generated\<close> and that document. Without its white
  space the document is a call of \<^verbatim>\<open>go_library\<close> whose argument is the quoted key
  \<^verbatim>\<open>srcs\<close>, a colon and a list.
\<close>

theorem NewBuildFile_fixed_document:
  \<open>NewBuildFile c = Returned ([LogPrintln generatedBytes], Parse c ''generated'' generatedBytes)
   \<and> filter (\<lambda>ch. \<not> isSpace ch) generatedBytes = ''go_library("srcs":["src.go",],)''\<close>
proof -
  have "NewBuildFile c = Returned ([LogPrintln generatedBytes], Parse c ''generated'' generatedBytes)"
    by (simp add: NewBuildFile_def tmplParse_templateText tmplExecute_genrule)
  moreover have \<open>filter (\<lambda>ch. \<not> isSpace ch) generatedBytes = ''go_library("srcs":["src.go",],)''\<close>
    by code_simp
  ultimately show ?thesis by simp
qed

section \<open>The log printed in check mode\<close>





text \<open>
  An entry that is the empty string is equal to the initial value of \<^verbatim>\<open>last\<close> and is
  not appended: for the log \<^verbatim>\<open>["edit", ""]\<close> the loop keeps \<^verbatim>\<open>["edit"]\<close>.
\<close>

lemma printedLog_drops_empty_entry:
  "printedLog [''edit'', []] = [''edit'']
   \<and> checkLog True \<lparr>Log = [''edit'', []]\<rparr> = (\<lparr>Log = [[], ''edit'']\<rparr>, '' edit'')"
  by code_simp



section \<open>processFile\<close>

lemma trace_emit: "trace (emit e w) = trace w @ [e]"
  by (simp add: emit_def)

lemma trace_writeTemp: "trace (fst (writeTemp os d w)) = trace w"
  by (simp add: writeTemp_def Let_def split: sum.splits option.splits)

lemma newEvents_append: "trace w' = trace w @ es \<Longrightarrow> newEvents w w' = es"
  by (simp add: newEvents_def)

lemma diffMode_events:
  "\<exists>es. trace (fst (diffMode os filename data ndata w)) = trace w @ es
        \<and> callsOf es = []
        \<and> (outputActions es \<noteq> [] \<longleftrightarrow>
             ndata \<noteq> data \<and> snd (diffMode os filename data ndata w) = Returned None)"
proof (cases "data = ndata")
  case True
  then show ?thesis by (simp add: diffMode_def outputActions_def)
next
  case False
  obtain w1 r1 where t1: "writeTemp os ndata w = (w1, r1)" by (cases "writeTemp os ndata w")
  then have tr1: "trace w1 = trace w" using trace_writeTemp [of os ndata w] by simp
  obtain w2 r2 where t2: "writeTemp os data w1 = (w2, r2)" by (cases "writeTemp os data w1")
  then have tr2: "trace w2 = trace w" using trace_writeTemp [of os data w1] tr1 by simp
  from False t1 t2 tr1 tr2 show ?thesis
    by (cases r1; cases r2) (auto simp: diffMode_def outputActions_def trace_emit)
qed

lemma fixMode_events:
  "\<exists>es. trace (fst (fixMode os fl filename data ndata w)) = trace w @ es
        \<and> callsOf es = []
        \<and> outputActions es = (if ndata \<noteq> data then [WriteFileCall filename ndata] else [])"
  by (cases "WriteFileErr os filename")
     (auto simp: fixMode_def WriteFile_def Let_def outputActions_def trace_emit emit_def)


lemma emit_fields [simp]:
  "DisableRewrites (emit e w) = DisableRewrites w"
  "AllowSort (emit e w) = AllowSort w"
  "exitCode (emit e w) = exitCode w"
  by (simp_all add: emit_def)

lemma trace_afterCalls:
  "trace (afterCalls w) = trace w @ [Called CParse, Called CFormat, Called CRewrite, Called CFormat]"
  by (simp add: afterCalls_def trace_emit)

lemma processFile_parsed:
  assumes rd: "(if filename = ''stdin'' then ReadAllStdin os else ReadFile w filename) = Inr data"
      and ps: "Parse c filename data = Inr f0"
  shows "processFile c os fl filename w =
     (if mode fl = ''check'' then
        ((if data \<noteq> ndataOf c fl w f0
          then emit (Stdout (checkLine c fl filename data (Format c (withPath fl f0))
                              (snd (rewritten c fl w f0)))) (afterCalls w)
          else afterCalls w), Returned None)
      else if mode fl = ''diff'' then diffMode os filename data (ndataOf c fl w f0) (afterCalls w)
      else if mode fl = ''pipe'' then (emit (Stdout (ndataOf c fl w f0)) (afterCalls w), Returned None)
      else if mode fl = ''fix'' then fixMode os fl filename data (ndataOf c fl w f0) (afterCalls w)
      else (afterCalls w, Panicked (''mode not supported: '' @ mode fl)))"
proof -
  obtain f1 info where rw: "Rewrite c (DisableRewrites w) (AllowSort w) (withPath fl f0) \<lparr>Log = []\<rparr> = (f1, info)"
    by (cases "Rewrite c (DisableRewrites w) (AllowSort w) (withPath fl f0) \<lparr>Log = []\<rparr>")
  then have "rewritten c fl w f0 = (f1, info)" "ndataOf c fl w f0 = Format c f1"
    by (simp_all add: rewritten_def ndataOf_def)
  with rd ps rw show ?thesis
    unfolding processFile_def afterCalls_def
    by (simp add: Let_def withPath_def)
qed

text \<open>
  Claim C6, as amended. When the file is read and parsed, \<^verbatim>\<open>processFile\<close> calls
  \<^verbatim>\<open>Parse\<close>, \<^verbatim>\<open>Format\<close>, \<^verbatim>\<open>Rewrite\<close> and \<^verbatim>\<open>Format\<close>, in this order. In check mode
  it prints the report line exactly when the final bytes differ from the input. In fix
  mode it calls \<^verbatim>\<open>ioutil.WriteFile\<close> with the final bytes exactly when they differ,
  and returns what that call returns. In pipe mode it writes the final bytes to standard
  output whether they differ or not. In diff mode it does nothing when the bytes are
  equal; when they differ it writes the final bytes to a temporary file and calls
  \<^verbatim>\<open>diff.Show\<close> with the file and the temporary file, and when creating or writing a
  temporary file fails it shows nothing and returns that error. (For the empty file
  name the input is written to a second temporary file, which is shown in its place.)
\<close>

theorem processFile_pipeline:
  assumes rd: "(if filename = ''stdin'' then ReadAllStdin os else ReadFile w filename) = Inr data"
      and ps: "Parse c filename data = Inr f0"
  shows "let w' = fst (processFile c os fl filename w);
             r = snd (processFile c os fl filename w);
             ndata = ndataOf c fl w f0;
             acts = outputActions (newEvents w w')
         in callsOf (newEvents w w') = [CParse, CFormat, CRewrite, CFormat]
          \<and> (mode fl = ''check'' \<longrightarrow>
               acts = (if ndata \<noteq> data
                       then [Stdout (checkLine c fl filename data (Format c (withPath fl f0))
                                      (snd (rewritten c fl w f0)))]
                       else [])
               \<and> r = Returned None)
          \<and> (mode fl = ''fix'' \<longrightarrow>
               acts = (if ndata \<noteq> data then [WriteFileCall filename ndata] else [])
               \<and> r = Returned (if ndata \<noteq> data then WriteFileErr os filename else None)
               \<and> (ndata \<noteq> data \<and> WriteFileErr os filename = None \<longrightarrow>
                    files w' filename = Some ndata))
          \<and> (mode fl = ''pipe'' \<longrightarrow> acts = [Stdout ndata] \<and> r = Returned None)
          \<and> (mode fl = ''diff'' \<and> ndata = data \<longrightarrow> acts = [] \<and> r = Returned None)
          \<and> (mode fl = ''diff'' \<and> ndata \<noteq> data \<and> TempFile os (ntemp w) = Inl e \<longrightarrow>
               acts = [] \<and> r = Returned (Some (''creating temporary file: '' @ e)))
          \<and> (mode fl = ''diff'' \<and> ndata \<noteq> data \<and> TempFile os (ntemp w) = Inr outfile
               \<and> TempWriteErr os outfile = Some e \<longrightarrow>
               acts = [] \<and> r = Returned (Some (''writing temporary file: '' @ e)))
          \<and> (mode fl = ''diff'' \<and> ndata \<noteq> data \<and> TempFile os (ntemp w) = Inr outfile
               \<and> TempWriteErr os outfile = None \<and> filename \<noteq> [] \<longrightarrow>
               acts = [DiffShow filename outfile] \<and> r = Returned None
               \<and> files w' outfile = Some ndata \<and> toRemove w' = toRemove w @ [outfile])
          \<and> (mode fl = ''diff'' \<and> ndata \<noteq> data \<and> TempFile os (ntemp w) = Inr outfile
               \<and> TempWriteErr os outfile = None \<and> filename = []
               \<and> TempFile os (Suc (ntemp w)) = Inl e \<longrightarrow>
               acts = [] \<and> r = Returned (Some (''creating temporary file: '' @ e)))
          \<and> (mode fl = ''diff'' \<and> ndata \<noteq> data \<and> TempFile os (ntemp w) = Inr outfile
               \<and> TempWriteErr os outfile = None \<and> filename = []
               \<and> TempFile os (Suc (ntemp w)) = Inr infile \<and> TempWriteErr os infile = Some e \<longrightarrow>
               acts = [] \<and> r = Returned (Some (''writing temporary file: '' @ e)))
          \<and> (mode fl = ''diff'' \<and> ndata \<noteq> data \<and> TempFile os (ntemp w) = Inr outfile
               \<and> TempWriteErr os outfile = None \<and> filename = []
               \<and> TempFile os (Suc (ntemp w)) = Inr infile \<and> TempWriteErr os infile = None \<longrightarrow>
               acts = [DiffShow infile outfile] \<and> r = Returned None
               \<and> files w' infile = Some data
               \<and> toRemove w' = toRemove w @ [outfile, infile])"
proof -
  let ?n = "ndataOf c fl w f0"
  let ?w4 = "afterCalls w"
  let ?calls = "[Called CParse, Called CFormat, Called CRewrite, Called CFormat]"
  let ?w' = "fst (processFile c os fl filename w)"
  let ?r = "snd (processFile c os fl filename w)"
  let ?acts = "outputActions (newEvents w ?w')"
  note pf = processFile_parsed [OF rd ps, of fl]
  have w4: "ntemp ?w4 = ntemp w" "files ?w4 = files w" "toRemove ?w4 = toRemove w"
    "trace ?w4 = trace w @ ?calls"
    by (simp_all add: afterCalls_def emit_def)
  have ne: "newEvents w v = ?calls @ es" if "trace v = trace w @ ?calls @ es" for v es
    using that by (rule newEvents_append)
  have oc: "outputActions (?calls @ xs) = outputActions xs" for xs
    by (simp add: outputActions_def)
  have cc: "callsOf (?calls @ xs) = [CParse, CFormat, CRewrite, CFormat] @ callsOf xs" for xs
    by simp
  obtain es where d: "trace (fst (diffMode os filename data ?n ?w4)) = trace ?w4 @ es"
      "callsOf es = []"
    using diffMode_events [of os filename data ?n ?w4] by blast
  obtain fs where f: "trace (fst (fixMode os fl filename data ?n ?w4)) = trace ?w4 @ fs"
      "callsOf fs = []"
      "outputActions fs = (if ?n \<noteq> data then [WriteFileCall filename ?n] else [])"
    using fixMode_events [of os fl filename data ?n ?w4] by blast
  have calls: "callsOf (newEvents w ?w') = [CParse, CFormat, CRewrite, CFormat]"
  proof -
    consider (chk) "mode fl = ''check''" | (dif) "mode fl = ''diff''" | (pip) "mode fl = ''pipe''"
      | (fx) "mode fl = ''fix''"
      | (other) "mode fl \<noteq> ''check''" "mode fl \<noteq> ''diff''" "mode fl \<noteq> ''pipe''"
          "mode fl \<noteq> ''fix''"
      by blast
    then show ?thesis
    proof cases
      case chk
      then have "trace ?w' = trace w @ ?calls @
          (if data \<noteq> ?n then [Stdout (checkLine c fl filename data (Format c (withPath fl f0))
                                 (snd (rewritten c fl w f0)))] else [])"
        by (simp add: pf trace_emit w4)
      from ne [OF this] show ?thesis by simp
    next
      case dif
      then have "trace ?w' = trace w @ ?calls @ es"
        using d(1) by (simp add: pf w4)
      from ne [OF this] d(2) show ?thesis by simp
    next
      case pip
      then have "trace ?w' = trace w @ ?calls @ [Stdout ?n]"
        by (simp add: pf trace_emit w4)
      from ne [OF this] show ?thesis by simp
    next
      case fx
      then have "trace ?w' = trace w @ ?calls @ fs"
        using f(1) by (simp add: pf w4)
      from ne [OF this] f(2) show ?thesis by simp
    next
      case other
      then have "trace ?w' = trace w @ ?calls @ []"
        by (simp add: pf w4)
      from ne [OF this] show ?thesis by simp
    qed
  qed
  have chk: "?acts = (if ?n \<noteq> data
                      then [Stdout (checkLine c fl filename data (Format c (withPath fl f0))
                                     (snd (rewritten c fl w f0)))]
                      else []) \<and> ?r = Returned None"
    if "mode fl = ''check''"
  proof -
    from that have "trace ?w' = trace w @ ?calls @
        (if data \<noteq> ?n then [Stdout (checkLine c fl filename data (Format c (withPath fl f0))
                               (snd (rewritten c fl w f0)))] else [])"
      by (simp add: pf trace_emit w4)
    from ne [OF this] that show ?thesis
      by (auto simp: pf outputActions_def)
  qed
  have fx: "?acts = (if ?n \<noteq> data then [WriteFileCall filename ?n] else [])
            \<and> ?r = Returned (if ?n \<noteq> data then WriteFileErr os filename else None)
            \<and> (?n \<noteq> data \<and> WriteFileErr os filename = None \<longrightarrow> files ?w' filename = Some ?n)"
    if m: "mode fl = ''fix''"
  proof -
    from m have eq: "processFile c os fl filename w = fixMode os fl filename data ?n ?w4"
      by (simp add: pf)
    then have t: "trace ?w' = trace w @ ?calls @ fs"
      using f(1) by (simp add: w4)
    have a: "?acts = (if ?n \<noteq> data then [WriteFileCall filename ?n] else [])"
      unfolding ne [OF t] oc by (rule f(3))
    have b: "?r = Returned (if ?n \<noteq> data then WriteFileErr os filename else None)"
      unfolding eq
      by (cases "WriteFileErr os filename") (simp_all add: fixMode_def WriteFile_def Let_def)
    have c: "files ?w' filename = Some ?n" if "?n \<noteq> data" "WriteFileErr os filename = None"
      unfolding eq using that by (simp add: fixMode_def WriteFile_def Let_def emit_def)
    from a b c show ?thesis by blast
  qed
  have pip: "?acts = [Stdout ?n] \<and> ?r = Returned None" if "mode fl = ''pipe''"
  proof -
    from that have "trace ?w' = trace w @ ?calls @ [Stdout ?n]"
      by (simp add: pf trace_emit w4)
    from ne [OF this] that show ?thesis
      by (simp add: pf outputActions_def)
  qed
  have dm: "processFile c os fl filename w = diffMode os filename data ?n ?w4"
    if "mode fl = ''diff''"
    using that by (simp add: pf)
  have nw: "newEvents w (v\<lparr>trace := trace w @ ?calls @ xs\<rparr>) = ?calls @ xs" for v xs
    by (simp add: newEvents_def)
  have d0: "?acts = [] \<and> ?r = Returned None" if "mode fl = ''diff''" "?n = data"
    unfolding dm [OF that(1)] using that(2-) w4
    by (simp add: diffMode_def outputActions_def newEvents_def)
  have d1: "?acts = [] \<and> ?r = Returned (Some (''creating temporary file: '' @ e))"
    if "mode fl = ''diff''" "?n \<noteq> data" "TempFile os (ntemp w) = Inl e"
    unfolding dm [OF that(1)] using that(2-) w4
    by (simp add: diffMode_def writeTemp_def outputActions_def newEvents_def)
  have d2: "?acts = [] \<and> ?r = Returned (Some (''writing temporary file: '' @ e))"
    if "mode fl = ''diff''" "?n \<noteq> data" "TempFile os (ntemp w) = Inr outfile"
      "TempWriteErr os outfile = Some e"
    unfolding dm [OF that(1)] using that(2-) w4
    by (simp add: diffMode_def writeTemp_def Let_def outputActions_def newEvents_def)
  have d3: "?acts = [DiffShow filename outfile] \<and> ?r = Returned None
            \<and> files ?w' outfile = Some ?n \<and> toRemove ?w' = toRemove w @ [outfile]"
    if "mode fl = ''diff''" "?n \<noteq> data" "TempFile os (ntemp w) = Inr outfile"
      "TempWriteErr os outfile = None" "filename \<noteq> []"
    unfolding dm [OF that(1)] using that(2-) w4
    by (simp add: diffMode_def writeTemp_def Let_def outputActions_def emit_def newEvents_def)
  have d4: "?acts = [] \<and> ?r = Returned (Some (''creating temporary file: '' @ e))"
    if "mode fl = ''diff''" "?n \<noteq> data" "TempFile os (ntemp w) = Inr outfile"
      "TempWriteErr os outfile = None" "filename = []" "TempFile os (Suc (ntemp w)) = Inl e"
    unfolding dm [OF that(1)] using that(2-) w4
    by (simp add: diffMode_def writeTemp_def Let_def outputActions_def emit_def newEvents_def)
  have d5: "?acts = [] \<and> ?r = Returned (Some (''writing temporary file: '' @ e))"
    if "mode fl = ''diff''" "?n \<noteq> data" "TempFile os (ntemp w) = Inr outfile"
      "TempWriteErr os outfile = None" "filename = []"
      "TempFile os (Suc (ntemp w)) = Inr infile" "TempWriteErr os infile = Some e"
    unfolding dm [OF that(1)] using that(2-) w4
    by (simp add: diffMode_def writeTemp_def Let_def outputActions_def emit_def newEvents_def)
  have d6: "?acts = [DiffShow infile outfile] \<and> ?r = Returned None
            \<and> files ?w' infile = Some data \<and> toRemove ?w' = toRemove w @ [outfile, infile]"
    if "mode fl = ''diff''" "?n \<noteq> data" "TempFile os (ntemp w) = Inr outfile"
      "TempWriteErr os outfile = None" "filename = []"
      "TempFile os (Suc (ntemp w)) = Inr infile" "TempWriteErr os infile = None"
    unfolding dm [OF that(1)] using that(2-) w4
    by (simp add: diffMode_def writeTemp_def Let_def outputActions_def emit_def newEvents_def)
  show ?thesis
    unfolding Let_def
    apply (intro conjI)
              apply (rule calls)
             apply (rule impI, erule chk)
            apply (rule impI, erule fx)
           apply (rule impI, erule pip)
          apply (rule impI, elim conjE, erule (1) d0)
         apply (rule impI, elim conjE, erule (2) d1)
        apply (rule impI, elim conjE, erule (3) d2)
       apply (rule impI, elim conjE, erule (4) d3)
      apply (rule impI, elim conjE, erule (5) d4)
     apply (rule impI, elim conjE, erule (6) d5)
    apply (rule impI, elim conjE, erule (6) d6)
    done
qed

text \<open>
  Instances: check mode and diff mode, on the file \<^verbatim>\<open>BUILD\<close> of the examples, whose
  bytes change; in diff mode with an operating system that creates the temporary file.
\<close>

theorem processFile_pipeline_witness:
  "callsOf (newEvents (initWorld exampleFiles)
      (fst (processFile exampleCore exampleOS exampleFlags ''BUILD'' (initWorld exampleFiles))))
     = [CParse, CFormat, CRewrite, CFormat]
   \<and> outputActions (newEvents (initWorld exampleFiles)
      (fst (processFile exampleCore exampleOS exampleFlags ''BUILD'' (initWorld exampleFiles))))
     = [Stdout ''BUILD # reformat info\<newline>'']
   \<and> outputActions (newEvents (initWorld exampleFiles)
      (fst (processFile exampleCore (exampleOS\<lparr>TempFile := (\<lambda>n. Inr ''/tmp/buildifier-tmp-0'')\<rparr>)
              (exampleFlags\<lparr>mode := ''diff''\<rparr>) ''BUILD'' (initWorld exampleFiles))))
     = [DiffShow ''BUILD'' ''/tmp/buildifier-tmp-0'']
   \<and> snd (processFile exampleCore (exampleOS\<lparr>TempFile := (\<lambda>n. Inr ''/tmp/buildifier-tmp-0'')\<rparr>)
              (exampleFlags\<lparr>mode := ''diff''\<rparr>) ''BUILD'' (initWorld exampleFiles))
     = Returned None
   \<and> files (fst (processFile exampleCore (exampleOS\<lparr>TempFile := (\<lambda>n. Inr ''/tmp/buildifier-tmp-0'')\<rparr>)
              (exampleFlags\<lparr>mode := ''diff''\<rparr>) ''BUILD'' (initWorld exampleFiles)))
        ''/tmp/buildifier-tmp-0'' = Some ''ab''"
proof -
  let ?os = "exampleOS\<lparr>TempFile := (\<lambda>n. Inr ''/tmp/buildifier-tmp-0'')\<rparr>"
  let ?fl = "exampleFlags\<lparr>mode := ''diff''\<rparr>"
  let ?f0 = "\<lparr>Path = ''BUILD'', Stmt = [''ab'']\<rparr>"
  have rd: "(if ''BUILD'' = ''stdin'' then ReadAllStdin os'
             else ReadFile (initWorld exampleFiles) ''BUILD'') = Inr ''a b''" for os' :: os
    by (simp add: ReadFile_def initWorld_def exampleFiles_def)
  have ps: "Parse exampleCore ''BUILD'' ''a b'' = Inr ?f0"
    by (simp add: exampleCore_def)
  have md: "mode exampleFlags = ''check''" "mode ?fl = ''diff''"
    by (simp_all add: exampleFlags_def)
  have line: "checkLine exampleCore exampleFlags ''BUILD'' ''a b''
                (Format exampleCore (withPath exampleFlags ?f0))
                (snd (rewritten exampleCore exampleFlags (initWorld exampleFiles) ?f0))
              = ''BUILD # reformat info\<newline>''"
    by (simp add: checkLine_def checkLog_def withPath_def rewritten_def exampleCore_def exampleFlags_def)
  have nd: "ndataOf exampleCore fl (initWorld exampleFiles) ?f0 = ''ab''" if "path fl = []" for fl
    using that by (simp add: ndataOf_def rewritten_def withPath_def exampleCore_def)
  have pth: "path exampleFlags = []" "path ?fl = []"
    by (simp_all add: exampleFlags_def)
  have tmp: "TempFile ?os (ntemp (initWorld exampleFiles)) = Inr ''/tmp/buildifier-tmp-0''"
    "TempWriteErr ?os ''/tmp/buildifier-tmp-0'' = None"
    by (simp_all add: exampleOS_def)
  from processFile_pipeline [OF rd ps, where fl = exampleFlags and os = exampleOS]
  have a: "callsOf (newEvents (initWorld exampleFiles)
      (fst (processFile exampleCore exampleOS exampleFlags ''BUILD'' (initWorld exampleFiles))))
     = [CParse, CFormat, CRewrite, CFormat]
   \<and> outputActions (newEvents (initWorld exampleFiles)
      (fst (processFile exampleCore exampleOS exampleFlags ''BUILD'' (initWorld exampleFiles))))
     = [Stdout ''BUILD # reformat info\<newline>'']"
    by (simp add: Let_def md line nd pth)
  from processFile_pipeline [OF rd ps, where fl = ?fl and os = ?os
      and outfile = "''/tmp/buildifier-tmp-0''"] tmp
  have b: "outputActions (newEvents (initWorld exampleFiles)
      (fst (processFile exampleCore ?os ?fl ''BUILD'' (initWorld exampleFiles))))
     = [DiffShow ''BUILD'' ''/tmp/buildifier-tmp-0'']
   \<and> snd (processFile exampleCore ?os ?fl ''BUILD'' (initWorld exampleFiles)) = Returned None
   \<and> files (fst (processFile exampleCore ?os ?fl ''BUILD'' (initWorld exampleFiles)))
        ''/tmp/buildifier-tmp-0'' = Some ''ab''"
    by (simp add: Let_def md nd pth)
  from a b show ?thesis by simp
qed

text \<open>
  Claim C6 as it is stated fails in two ways. In pipe mode the final bytes are written
  to standard output although they are equal to the input. In diff mode, when the
  temporary file cannot be created, nothing is shown although the final bytes differ
  from the input; \<^verbatim>\<open>processFile\<close> returns the error instead.
\<close>

theorem processFile_output_counterexample:
  "outputActions (newEvents (initWorld exampleFiles)
      (fst (processFile exampleCore exampleOS (exampleFlags\<lparr>mode := ''pipe''\<rparr>) ''stdin''
              (initWorld exampleFiles)))) = [Stdout ''ab'']
   \<and> ndataOf exampleCore (exampleFlags\<lparr>mode := ''pipe''\<rparr>) (initWorld exampleFiles)
        \<lparr>Path = ''stdin'', Stmt = [''ab'']\<rparr> = ''ab''
   \<and> \<not> (outputActions (newEvents (initWorld exampleFiles)
            (fst (processFile exampleCore exampleOS (exampleFlags\<lparr>mode := ''pipe''\<rparr>) ''stdin''
                    (initWorld exampleFiles)))) \<noteq> []
         \<longleftrightarrow> ndataOf exampleCore (exampleFlags\<lparr>mode := ''pipe''\<rparr>) (initWorld exampleFiles)
               \<lparr>Path = ''stdin'', Stmt = [''ab'']\<rparr> \<noteq> ''ab'')
   \<and> processFile exampleCore exampleOS (exampleFlags\<lparr>mode := ''diff''\<rparr>) ''BUILD''
        (initWorld exampleFiles)
      = (afterCalls (initWorld exampleFiles),
         Returned (Some ''creating temporary file: no space left on device''))
   \<and> ndataOf exampleCore (exampleFlags\<lparr>mode := ''diff''\<rparr>) (initWorld exampleFiles)
        \<lparr>Path = ''BUILD'', Stmt = [''ab'']\<rparr> = ''ab''
   \<and> \<not> (outputActions (newEvents (initWorld exampleFiles)
            (fst (processFile exampleCore exampleOS (exampleFlags\<lparr>mode := ''diff''\<rparr>) ''BUILD''
                    (initWorld exampleFiles)))) \<noteq> []
         \<longleftrightarrow> ndataOf exampleCore (exampleFlags\<lparr>mode := ''diff''\<rparr>) (initWorld exampleFiles)
               \<lparr>Path = ''BUILD'', Stmt = [''ab'']\<rparr> \<noteq> ''a b'')"
proof -
  have pipe: "processFile exampleCore exampleOS (exampleFlags\<lparr>mode := ''pipe''\<rparr>) ''stdin''
                (initWorld exampleFiles)
              = (emit (Stdout ''ab'') (afterCalls (initWorld exampleFiles)), Returned None)"
    by (simp add: processFile_def exampleCore_def exampleOS_def exampleFlags_def afterCalls_def Let_def)
  have diff: "processFile exampleCore exampleOS (exampleFlags\<lparr>mode := ''diff''\<rparr>) ''BUILD''
                (initWorld exampleFiles)
              = (afterCalls (initWorld exampleFiles),
                 Returned (Some ''creating temporary file: no space left on device''))"
    by (simp add: processFile_def diffMode_def writeTemp_def ReadFile_def exampleCore_def
        exampleOS_def exampleFlags_def exampleFiles_def initWorld_def afterCalls_def emit_def Let_def)
  have nd: "ndataOf exampleCore fl (initWorld exampleFiles) \<lparr>Path = p, Stmt = [''ab'']\<rparr> = ''ab''"
    if "path fl = []" for fl p
    using that by (simp add: ndataOf_def rewritten_def withPath_def exampleCore_def)
  have ev1: "newEvents w (emit e (afterCalls w))
             = [Called CParse, Called CFormat, Called CRewrite, Called CFormat, e]" for w e
    by (simp add: newEvents_def afterCalls_def emit_def)
  have ev2: "newEvents w (afterCalls w)
             = [Called CParse, Called CFormat, Called CRewrite, Called CFormat]" for w
    by (simp add: newEvents_def afterCalls_def emit_def)
  show ?thesis
    unfolding pipe diff
    by (simp add: nd ev1 ev2 outputActions_def exampleFlags_def)
qed

section \<open>Files that do not parse\<close>

lemma processFile_parse_error:
  assumes rd: "(if filename = ''stdin'' then ReadAllStdin os else ReadFile w filename) = Inr data"
      and ps: "Parse c filename data = Inl err"
  shows "processFile c os fl filename w = (emit (Called CParse) w, Returned None)"
  using rd ps unfolding processFile_def by simp

lemma exitCode_writeTemp: "exitCode (fst (writeTemp os d w)) = exitCode w"
  by (simp add: writeTemp_def Let_def split: sum.splits option.splits)

lemma exitCode_diffMode: "exitCode (fst (diffMode os filename data ndata w)) = exitCode w"
proof -
  obtain w1 r1 where t1: "writeTemp os ndata w = (w1, r1)" by (cases "writeTemp os ndata w")
  then have e1: "exitCode w1 = exitCode w" using exitCode_writeTemp [of os ndata w] by simp
  obtain w2 r2 where t2: "writeTemp os data w1 = (w2, r2)" by (cases "writeTemp os data w1")
  then have e2: "exitCode w2 = exitCode w" using exitCode_writeTemp [of os data w1] e1 by simp
  from t1 t2 e1 e2 show ?thesis
    by (cases r1; cases r2) (simp_all add: diffMode_def)
qed

lemma exitCode_fixMode: "exitCode (fst (fixMode os fl filename data ndata w)) = exitCode w"
  by (cases "WriteFileErr os filename") (simp_all add: fixMode_def WriteFile_def Let_def)

lemma exitCode_afterCalls: "exitCode (afterCalls w) = exitCode w"
  by (simp add: afterCalls_def)

lemma exitCode_processFile: "exitCode (fst (processFile c os fl filename w)) = exitCode w"
proof (cases "if filename = ''stdin'' then ReadAllStdin os else ReadFile w filename")
  case (Inl e)
  then show ?thesis by (simp add: processFile_def)
next
  case (Inr data)
  show ?thesis
  proof (cases "Parse c filename data")
    case (Inl err)
    with Inr show ?thesis by (simp add: processFile_parse_error)
  next
    case ps: (Inr f0)
    show ?thesis
      by (simp add: processFile_parsed [OF Inr ps] exitCode_diffMode exitCode_fixMode
          exitCode_afterCalls)
  qed
qed

lemma exitCode_runFiles: "exitCode (fst (runFiles c os fl names ch w)) = exitCode w"
proof (induction names arbitrary: ch w)
  case Nil
  then show ?case by simp
next
  case (Cons filename rest)
  obtain w1 r where pf: "processFile c os fl filename w = (w1, r)"
    by (cases "processFile c os fl filename w")
  then have "exitCode w1 = exitCode w"
    using exitCode_processFile [of c os fl filename w] by simp
  with pf Cons.IH show ?case
    by (cases r) (simp_all split: option.splits)
qed

lemma exitCode_fold_printErr: "exitCode (fold printErr ch w) = exitCode w"
  by (induction ch arbitrary: w) (simp_all add: printErr_def)

lemma exitCode_processFiles: "exitCode (fst (processFiles c os fl names w)) = exitCode w"
proof -
  obtain w1 r where rf: "runFiles c os fl names [] w = (w1, r)"
    by (cases "runFiles c os fl names [] w")
  then have "exitCode w1 = exitCode w"
    using exitCode_runFiles [of c os fl names "[]" w] by simp
  with rf show ?thesis
    by (cases r) (simp_all add: processFiles_def exitCode_fold_printErr)
qed

text \<open>
  \<^verbatim>\<open>processFile\<close> panics for an unknown mode only, \<^verbatim>\<open>main\<close> passes one of the four
  modes, and nothing assigns \<^verbatim>\<open>exitCode\<close>: the exit status of \<^verbatim>\<open>main\<close> is 2 for a
  usage error and 0 otherwise.
\<close>

lemma returns_diffMode: "returns (snd (diffMode os filename data ndata w))"
proof -
  obtain w1 r1 where t1: "writeTemp os ndata w = (w1, r1)" by (cases "writeTemp os ndata w")
  obtain w2 r2 where t2: "writeTemp os data w1 = (w2, r2)" by (cases "writeTemp os data w1")
  from t1 t2 show ?thesis
    by (cases r1; cases r2) (simp_all add: diffMode_def returns_def)
qed

lemma returns_fixMode: "returns (snd (fixMode os fl filename data ndata w))"
  by (cases "WriteFileErr os filename") (simp_all add: fixMode_def WriteFile_def Let_def returns_def)

lemma returns_processFile:
  assumes "mode fl = ''check'' \<or> mode fl = ''diff'' \<or> mode fl = ''pipe'' \<or> mode fl = ''fix''"
  shows "returns (snd (processFile c os fl filename w))"
proof (cases "if filename = ''stdin'' then ReadAllStdin os else ReadFile w filename")
  case (Inl e)
  then show ?thesis by (simp add: processFile_def returns_def)
next
  case (Inr data)
  show ?thesis
  proof (cases "Parse c filename data")
    case (Inl err)
    with Inr show ?thesis by (simp add: processFile_parse_error returns_def)
  next
    case ps: (Inr f0)
    from assms show ?thesis
      by (auto simp: processFile_parsed [OF Inr ps] returns_diffMode returns_fixMode)
         (simp_all add: returns_def)
  qed
qed

lemma returns_runFiles:
  assumes "mode fl = ''check'' \<or> mode fl = ''diff'' \<or> mode fl = ''pipe'' \<or> mode fl = ''fix''"
  shows "returns (snd (runFiles c os fl names ch w))"
proof (induction names arbitrary: ch w)
  case Nil
  then show ?case by (simp add: returns_def)
next
  case (Cons filename rest)
  obtain w1 r where pf: "processFile c os fl filename w = (w1, r)"
    by (cases "processFile c os fl filename w")
  then have "returns r"
    using returns_processFile [OF assms, of c os filename w] by simp
  with pf Cons.IH show ?case
    by (cases r) (simp_all add: returns_def split: option.splits)
qed

lemma returns_processFiles:
  assumes "mode fl = ''check'' \<or> mode fl = ''diff'' \<or> mode fl = ''pipe'' \<or> mode fl = ''fix''"
  shows "returns (snd (processFiles c os fl names w))"
proof -
  obtain w1 r where rf: "runFiles c os fl names [] w = (w1, r)"
    by (cases "runFiles c os fl names [] w")
  then have "returns r"
    using returns_runFiles [OF assms, of c os names "[]" w] by simp
  with rf show ?thesis
    by (cases r) (simp_all add: processFiles_def returns_def)
qed

lemma exitCode_fold_osRemove: "exitCode (fold osRemove names w) = exitCode w"
  by (induction names arbitrary: w) (simp_all add: osRemove_def)

lemma finish_exit_status:
  assumes "returns (snd r)" and "exitCode (fst r) = 0"
  shows "snd (finish r) = 0"
proof -
  obtain w1 x where r: "r = (w1, x)" by (cases r)
  with assms show ?thesis
    by (cases x) (simp_all add: finish_def returns_def Let_def exitCode_fold_osRemove)
qed

lemma main_exit_status:
  "snd (main c os fl args fs) = (if usageError fl args then 2 else 0)"
proof (cases "usageError fl args")
  case True
  then show ?thesis
    by (auto simp: main_def usageError_def Let_def)
next
  case False
  have ex: "snd (finish (processFiles c os fl' names (startWorld fl fs))) = 0"
    if m: "mode fl' = ''check'' \<or> mode fl' = ''diff'' \<or> mode fl' = ''pipe'' \<or> mode fl' = ''fix''"
    for fl' names
  proof (rule finish_exit_status)
    show "returns (snd (processFiles c os fl' names (startWorld fl fs)))"
      using m by (rule returns_processFiles)
    show "exitCode (fst (processFiles c os fl' names (startWorld fl fs))) = 0"
      by (simp add: exitCode_processFiles startWorld_def initWorld_def)
  qed
  from False show ?thesis
    unfolding main_def usageError_def Let_def
    by (auto simp: ex)
qed

text \<open>
  Claim C9. When \<^verbatim>\<open>build.Parse\<close> returns an error, \<^verbatim>\<open>processFile\<close> returns \<^verbatim>\<open>nil\<close>
  and has done nothing but call \<^verbatim>\<open>Parse\<close>: nothing is printed. \<^verbatim>\<open>exitCode\<close> is never
  assigned by \<^verbatim>\<open>processFiles\<close>. A run of \<^verbatim>\<open>main\<close> on such a file, with flags that
  are no usage error, prints nothing and ends with exit status 0; so does, as to the
  exit status, every run of \<^verbatim>\<open>main\<close> that is no usage error.
\<close>

theorem parse_error_discarded:
  assumes rd: "(if filename = ''stdin'' then ReadAllStdin os else ReadFile w filename) = Inr data"
      and ps: "Parse c filename data = Inl err"
  shows "processFile c os fl filename w = (emit (Called CParse) w, Returned None)
     \<and> exitCode (fst (processFiles c os fl names w)) = exitCode w
     \<and> (w = startWorld fl fs \<and> \<not> usageError fl [filename] \<longrightarrow>
          main c os fl [filename] fs = (emit DiffRun (emit (Called CParse) w), 0))
     \<and> (\<not> usageError fl args \<longrightarrow> snd (main c os fl args fs) = 0)"
proof -
  have pf: "processFile c os fl' filename w = (emit (Called CParse) w, Returned None)" for fl'
    using rd ps by (rule processFile_parse_error)
  have files: "processFiles c os fl' [filename] w = (emit (Called CParse) w, Returned ())" for fl'
    by (simp add: processFiles_def pf)
  have start: "toRemove (startWorld fl fs) = []" "exitCode (startWorld fl fs) = 0"
    by (simp_all add: startWorld_def initWorld_def)
  have "main c os fl [filename] fs = (emit DiffRun (emit (Called CParse) w), 0)"
    if w: "w = startWorld fl fs" and u: "\<not> usageError fl [filename]"
  proof -
    have tr: "toRemove (emit DiffRun (emit (Called CParse) w)) = []" "exitCode w = 0"
      using start w by (simp_all add: emit_def)
    show ?thesis
      using u unfolding main_def usageError_def w [symmetric]
      by (auto simp: Let_def finish_def files tr)
  qed
  moreover have "snd (main c os fl args fs) = 0" if "\<not> usageError fl args"
    using that by (simp add: main_exit_status)
  ultimately show ?thesis
    using pf exitCode_processFiles by blast
qed

text \<open>An instance: the file \<^verbatim>\<open>bad/BUILD\<close> of the examples does not parse.\<close>

theorem parse_error_discarded_witness:
  "processFile exampleCore exampleOS exampleFlags ''bad/BUILD'' (startWorld exampleFlags exampleFiles)
     = (emit (Called CParse) (startWorld exampleFlags exampleFiles), Returned None)
   \<and> main exampleCore exampleOS exampleFlags [''bad/BUILD''] exampleFiles
     = (emit DiffRun (emit (Called CParse) (startWorld exampleFlags exampleFiles)), 0)
   \<and> trace (fst (main exampleCore exampleOS exampleFlags [''bad/BUILD''] exampleFiles))
     = [Called CParse, DiffRun]"
proof -
  have rd: "(if ''bad/BUILD'' = ''stdin'' then ReadAllStdin exampleOS
             else ReadFile (startWorld exampleFlags exampleFiles) ''bad/BUILD'') = Inr ''a(!''"
    by (simp add: ReadFile_def startWorld_def initWorld_def exampleFiles_def)
  have ps: "Parse exampleCore ''bad/BUILD'' ''a(!'' = Inl ''bad/BUILD: syntax error''"
    by (simp add: exampleCore_def)
  have fl: "\<not> usageError exampleFlags [''bad/BUILD'']"
    by (simp add: usageError_def exampleFlags_def)
  have tr: "trace (emit DiffRun (emit (Called CParse) (startWorld exampleFlags exampleFiles)))
            = [Called CParse, DiffRun]"
    by (simp add: emit_def startWorld_def initWorld_def)
  from parse_error_discarded [OF rd ps, of exampleFlags "[]" exampleFiles "[''bad/BUILD'']"] fl tr
  show ?thesis by simp
qed

section \<open>The name of a rule\<close>

lemma map_of_filter_key:
  "map_of (filter (\<lambda>kv. fst kv \<noteq> k) kvs) key = (if key = k then None else map_of kvs key)"
  by (induction kvs) auto

lemma Attr_addArg_Positional: "Attr (addArg r (Positional e)) key = Attr r key"
  by (simp add: Attr_def)

lemma Attr_addArg_Keyword:
  "Attr (addArg r (Keyword k v)) key = (if key = k then Some v else Attr r key)"
  by (auto simp: Attr_def map_of_filter_key map_add_def split: option.splits)

lemma Attr_foldl:
  "Attr (foldl addArg r args) key =
     (case keywordValues key args of [] \<Rightarrow> Attr r key | v # vs \<Rightarrow> Some (last (v # vs)))"
proof (induction args arbitrary: r)
  case Nil
  then show ?case by simp
next
  case (Cons a args)
  show ?case
  proof (cases a)
    case (Positional e)
    with Cons [of "addArg r a"] show ?thesis
      by (simp add: Attr_addArg_Positional del: addArg.simps split: list.splits)
  next
    case (Keyword k v)
    with Cons [of "addArg r a"] show ?thesis
      by (auto simp: Attr_addArg_Keyword simp del: addArg.simps split: list.splits)
  qed
qed

lemma Positionals_foldl:
  "Positionals (foldl addArg r args) = Positionals r @ positionalArgs args"
proof (induction args arbitrary: r)
  case Nil
  then show ?case by simp
next
  case (Cons a args)
  then show ?case by (cases a) simp_all
qed

lemma keys_addArg: "distinct (map fst (Attrs r)) \<Longrightarrow> distinct (map fst (Attrs (addArg r a)))"
  by (cases a) (auto simp: distinct_map_filter)

lemma keys_foldl: "distinct (map fst (Attrs r)) \<Longrightarrow> distinct (map fst (Attrs (foldl addArg r args)))"
  by (induction args arbitrary: r) (simp_all add: keys_addArg)

lemma parsedRule_keys_unique: "distinct (map fst (Attrs (parsedRule kind args)))"
  by (simp add: parsedRule_def keys_foldl)

text \<open>
  Claim C5. The name of a parsed rule is the value of its last keyword argument
  \<^verbatim>\<open>name\<close> if there is one, also when there are positional arguments; otherwise its
  first positional argument if that is a string literal; otherwise the empty string.
\<close>

theorem Name_resolution:
  "Name (parsedRule kind args) =
     (case keywordValues ''name'' args of
        [] \<Rightarrow> (case positionalArgs args of
                 Literal (StringLit s) # rest \<Rightarrow> Literal (StringLit s)
               | _ \<Rightarrow> Literal (StringLit []))
      | v # vs \<Rightarrow> last (v # vs))"
proof -
  have a: "Attr (parsedRule kind args) ''name'' =
     (case keywordValues ''name'' args of [] \<Rightarrow> None | v # vs \<Rightarrow> Some (last (v # vs)))"
    unfolding parsedRule_def Attr_foldl by (simp add: Attr_def split: list.splits)
  have p: "Positionals (parsedRule kind args) = positionalArgs args"
    unfolding parsedRule_def Positionals_foldl by simp
  show ?thesis
    unfolding Name_def a p by (simp split: list.splits)
qed

text \<open>
  Instances: a rule with a positional string and a \<^verbatim>\<open>name\<close> attribute, a rule with a
  positional string only, a rule whose first argument is no string literal, and a rule
  without arguments.
\<close>

theorem Name_resolution_witness:
  "Name (parsedRule ''go_library''
           [Positional (Literal (StringLit ''first'')), Keyword ''name'' (Literal (StringLit ''x'')),
            Keyword ''srcs'' (ListLiteral [Literal (StringLit ''a.go'')])])
     = Literal (StringLit ''x'')
   \<and> Name (parsedRule ''go_library'' [Positional (Literal (StringLit ''first''))])
     = Literal (StringLit ''first'')
   \<and> Name (parsedRule ''go_library'' [Positional (Identifier ''first'')]) = Literal (StringLit [])
   \<and> Name (parsedRule ''go_library'' []) = Literal (StringLit [])"
  using Name_resolution [of "''go_library''"
           "[Positional (Literal (StringLit ''first'')), Keyword ''name'' (Literal (StringLit ''x'')),
             Keyword ''srcs'' (ListLiteral [Literal (StringLit ''a.go'')])]"]
        Name_resolution [of "''go_library''" "[Positional (Literal (StringLit ''first''))]"]
        Name_resolution [of "''go_library''" "[Positional (Identifier ''first'')]"]
        Name_resolution [of "''go_library''" "[]"]
  by simp

end
